theory Spec2Isabelle
  imports Main "HOL-Library.Sublist" "HOL-Library.List_Lexorder" "HOL-Library.Char_ord"
begin

section \<open>eth-videoz: the acquisition pipeline of \<^verbatim>\<open>src/eth_videoz/eth_videoz.py\<close>\<close>

text \<open>
  The theory embeds the functions of \<^verbatim>\<open>eth_videoz.py\<close> that classify a series,
  bucket the series by access tier, select an item's media, run tasks under the semaphore
  and transfer files with HTTP byte ranges. Python exceptions are values of
  \<open>py_error\<close>; a function that can raise returns \<open>py_error + 'a\<close>. The file system is
  a map from paths to contents, passed in and returned. What the browser and the server
  answer is a parameter of the model (\<open>portal\<close>, \<open>net\<close>).
\<close>

subsection \<open>Exceptions\<close>

datatype py_error =
    IndexError
  | KeyError
  | AttributeError
  | TypeError
  | ValueError
  | SystemExit
  | TimeoutError
  | ClientResponseError nat
  | ClientConnectionError

subsection \<open>Strings\<close>

text \<open>
  \<^verbatim>\<open>s.split(sep, 1)[1]\<close>: the text after the first occurrence of a non-empty
  \<open>sep\<close>; \<open>None\<close> when \<open>sep\<close> does not occur (Python raises \<^verbatim>\<open>IndexError\<close>).
\<close>

fun after_first :: "string \<Rightarrow> string \<Rightarrow> string option" where
  "after_first sep [] = None"
| "after_first sep (c # cs) =
     (if take (length sep) (c # cs) = sep then Some (drop (length sep) (c # cs))
      else after_first sep cs)"

text \<open>
  \<^verbatim>\<open>s.rsplit(".", 1)[1]\<close>: the text after the last dot; \<open>None\<close> when there is no
  dot (\<^verbatim>\<open>IndexError\<close>).
\<close>

definition rsplit_dot :: "string \<Rightarrow> string option" where
  "rsplit_dot s =
     (if CHR ''.'' \<in> set s then Some (rev (takeWhile (\<lambda>c. c \<noteq> CHR ''.'') (rev s))) else None)"

text \<open>\<^verbatim>\<open>sub in s\<close>, \<^verbatim>\<open>s.endswith(suf)\<close>, \<^verbatim>\<open>s.strip(chars)\<close>, \<^verbatim>\<open>s.lstrip(chars)\<close>.\<close>

fun contains :: "string \<Rightarrow> string \<Rightarrow> bool" where
  "contains sub [] = (sub = [])"
| "contains sub (c # cs) = (take (length sub) (c # cs) = sub \<or> contains sub cs)"

definition endswith :: "string \<Rightarrow> string \<Rightarrow> bool" where
  "endswith suf s = (length suf \<le> length s \<and> drop (length s - length suf) s = suf)"

definition lstrip :: "string \<Rightarrow> string \<Rightarrow> string" where
  "lstrip cs s = dropWhile (\<lambda>c. c \<in> set cs) s"

definition strip :: "string \<Rightarrow> string \<Rightarrow> string" where
  "strip cs s = rev (dropWhile (\<lambda>c. c \<in> set cs) (rev (dropWhile (\<lambda>c. c \<in> set cs) s)))"

text \<open>
  \<^verbatim>\<open>s.replace(old, new)\<close>: every occurrence of \<open>old\<close>, left to right, without
  overlap; an empty \<open>old\<close> matches before every character and at the end.
\<close>

function replace_nonempty :: "string \<Rightarrow> string \<Rightarrow> string \<Rightarrow> string" where
  "replace_nonempty old new s =
     (if s = [] \<or> old = [] then s
      else if take (length old) s = old
        then new @ replace_nonempty old new (drop (length old) s)
      else hd s # replace_nonempty old new (tl s))"
  by pat_completeness auto
termination
  by (relation "measure (\<lambda>(old, new, s). length s)") auto

definition replace :: "string \<Rightarrow> string \<Rightarrow> string \<Rightarrow> string" where
  "replace old new s =
     (if old = [] then new @ concat (map (\<lambda>c. c # new) s) else replace_nonempty old new s)"

text \<open>
  \<^verbatim>\<open>make_safe_filename\<close>: spaces become underscores, then the characters
  \<^verbatim>\<open><>:"/\|?*\<close> are removed.
\<close>

definition make_safe_filename :: "string \<Rightarrow> string" where
  "make_safe_filename title =
     (let underscored = map (\<lambda>c. if c = CHR '' '' then CHR ''_'' else c) title
      in filter (\<lambda>c. c \<notin> set [CHR ''<'', CHR ''>'', CHR '':'', CHR 0x22, CHR ''/'', CHR 0x5C,
                                CHR ''|'', CHR ''?'', CHR ''*'']) underscored)"

text \<open>\<^verbatim>\<open>os.path.join(a, b)\<close> on POSIX.\<close>

definition os_path_join :: "string \<Rightarrow> string \<Rightarrow> string" where
  "os_path_join a b =
     (if take 1 b = ''/'' then b
      else if a = [] \<or> endswith ''/'' a then a @ b
      else a @ ''/'' @ b)"

subsection \<open>Timestamps\<close>

text \<open>
  The value \<^verbatim>\<open>datetime.fromisoformat(timestamp.replace("Z", "+00:00"))\<close> returns, by
  its fields. The portal's timestamps end in \<^verbatim>\<open>Z\<close>, so all of them carry the UTC
  offset zero, and Python compares datetimes of one offset field by field, the year
  first. \<open>valid_datetime\<close> states the ranges of the fields, with a year of four digits.
\<close>

record py_datetime =
  dt_year :: nat
  dt_month :: nat
  dt_day :: nat
  dt_hour :: nat
  dt_minute :: nat
  dt_second :: nat
  dt_microsecond :: nat

definition valid_datetime :: "py_datetime \<Rightarrow> bool" where
  "valid_datetime d \<longleftrightarrow>
     1000 \<le> dt_year d \<and> dt_year d \<le> 9999 \<and> 1 \<le> dt_month d \<and> dt_month d \<le> 12 \<and>
     1 \<le> dt_day d \<and> dt_day d \<le> 31 \<and> dt_hour d < 24 \<and> dt_minute d < 60 \<and>
     dt_second d < 60 \<and> dt_microsecond d < 1000000"

text \<open>\<^verbatim>\<open>a < b\<close> and \<^verbatim>\<open>a <= b\<close> on datetimes: chronological order.\<close>

definition dt_fields :: "py_datetime \<Rightarrow> nat list" where
  "dt_fields d =
     [dt_year d, dt_month d, dt_day d, dt_hour d, dt_minute d, dt_second d, dt_microsecond d]"

definition earlier :: "py_datetime \<Rightarrow> py_datetime \<Rightarrow> bool" where
  "earlier a b \<longleftrightarrow> dt_fields a < dt_fields b"

text \<open>The timestamp cut to the minute: seconds and microseconds set to zero.\<close>

definition to_minute :: "py_datetime \<Rightarrow> py_datetime" where
  "to_minute d = d\<lparr>dt_second := 0, dt_microsecond := 0\<rparr>"

text \<open>
  \<^verbatim>\<open>strftime("%Y-%m-%d__%H_%M")\<close>: the year in four digits, the other fields in two,
  with the separators of the format.
\<close>

definition digit_char :: "nat \<Rightarrow> char" where
  "digit_char d = char_of (48 + d)"

definition pad2 :: "nat \<Rightarrow> string" where
  "pad2 n = [digit_char (n div 10 mod 10), digit_char (n mod 10)]"

definition pad4 :: "nat \<Rightarrow> string" where
  "pad4 n = [digit_char (n div 1000 mod 10), digit_char (n div 100 mod 10),
             digit_char (n div 10 mod 10), digit_char (n mod 10)]"

definition strftime :: "py_datetime \<Rightarrow> string" where
  "strftime d =
     pad4 (dt_year d) @ ''-'' @ pad2 (dt_month d) @ ''-'' @ pad2 (dt_day d) @ ''__''
       @ pad2 (dt_hour d) @ ''_'' @ pad2 (dt_minute d)"

text \<open>The fields that the format prints.\<close>

definition minute_fields :: "py_datetime \<Rightarrow> nat list" where
  "minute_fields d = [dt_year d, dt_month d, dt_day d, dt_hour d, dt_minute d]"

subsection \<open>HTTP responses and the file system\<close>

text \<open>
  What \<^verbatim>\<open>session.get(url, headers=headers)\<close> hands to the code: the status, the
  \<^verbatim>\<open>Content-Length\<close> header as \<^verbatim>\<open>int(...)\<close> reads it, the total after the last
  \<^verbatim>\<open>/\<close> of the \<^verbatim>\<open>Content-Range\<close> header as \<^verbatim>\<open>int(content_range.split("/")[-1])\<close>
  reads it (\<open>None\<close>: the header is absent), and the chunks that
  \<^verbatim>\<open>response.content.iter_chunked(1024)\<close> yields.
\<close>

record response =
  status :: nat
  content_length :: "nat option"
  content_range :: "nat option"
  chunks :: "string list"

text \<open>
  The \<^verbatim>\<open>Range\<close> request header: \<open>None\<close> when the header is not sent,
  \<open>Some (s, None)\<close> for \<^verbatim>\<open>bytes=s-\<close>, \<open>Some (s, Some e)\<close> for \<^verbatim>\<open>bytes=s-e\<close>.
  The network answers a URL and a range header with a response, or with no response
  (the connection fails and aiohttp raises).
\<close>

type_synonym range_header = "(nat \<times> nat option) option"
type_synonym net = "string \<Rightarrow> range_header \<Rightarrow> response option"
type_synonym fs = "string \<rightharpoonup> string"

datatype open_mode = Append | Truncate

datatype file_op =
    MakeDirs string
  | ProgressBar nat nat
  | FOpen string open_mode
  | FWrite string string

text \<open>\<^verbatim>\<open>os.path.getsize(abspath) if os.path.exists(abspath) else 0\<close>\<close>

definition file_size :: "fs \<Rightarrow> string \<Rightarrow> nat" where
  "file_size files abspath = (case files abspath of None \<Rightarrow> 0 | Some b \<Rightarrow> length b)"

text \<open>
  \<^verbatim>\<open>aiofiles.open(abspath, mode)\<close>: \<^verbatim>\<open>"wb"\<close> empties or creates the file,
  \<^verbatim>\<open>"ab"\<close> keeps what it holds and creates it when absent. \<^verbatim>\<open>f.write(chunk)\<close>
  adds the chunk at the end.
\<close>

definition open_file :: "string \<Rightarrow> open_mode \<Rightarrow> fs \<Rightarrow> fs" where
  "open_file abspath m files =
     (case m of
        Truncate \<Rightarrow> files(abspath \<mapsto> [])
      | Append \<Rightarrow> (case files abspath of None \<Rightarrow> files(abspath \<mapsto> []) | Some b \<Rightarrow> files))"

definition write_chunk :: "string \<Rightarrow> fs \<Rightarrow> string \<Rightarrow> fs" where
  "write_chunk abspath files chunk =
     files(abspath \<mapsto> (case files abspath of None \<Rightarrow> chunk | Some b \<Rightarrow> b @ chunk))"

text \<open>
  \<^verbatim>\<open>response.raise_for_status()\<close> of aiohttp raises \<^verbatim>\<open>ClientResponseError\<close> exactly
  when the status is 400 or more.
\<close>

definition raise_for_status :: "response \<Rightarrow> py_error + unit" where
  "raise_for_status r =
     (if 400 \<le> status r then Inl (ClientResponseError (status r)) else Inr ())"

subsection \<open>\<^verbatim>\<open>download_file\<close>\<close>

text \<open>
  The result is what the call raises or returns (\<^verbatim>\<open>None\<close>), the file system after
  the call, and the operations on the destination in the order the code performs them.
  The branches follow the source: the size of the existing file, the \<^verbatim>\<open>Range\<close>
  header when that size is positive, the early return when the existing size reaches
  \<^verbatim>\<open>Content-Length\<close>, the return on 416, \<^verbatim>\<open>raise_for_status\<close> for statuses
  other than 200 and 206, the total of \<^verbatim>\<open>Content-Range\<close> for the progress bar,
  \<^verbatim>\<open>raise_for_status\<close> again, the mode, and the chunk loop.
\<close>

definition range_request :: "nat \<Rightarrow> range_header" where
  "range_request start_byte = (if 0 < start_byte then Some (start_byte, None) else None)"

definition download_file ::
  "net \<Rightarrow> string \<Rightarrow> string \<Rightarrow> fs \<Rightarrow> (py_error + unit) \<times> fs \<times> file_op list" where
  "download_file nw link abspath files =
     (let start_byte = file_size files abspath;
          headers = range_request start_byte
      in case nw link headers of
           None \<Rightarrow> (Inl ClientConnectionError, files, [])
         | Some r \<Rightarrow>
             (let total_size = (case content_length r of None \<Rightarrow> 0 | Some n \<Rightarrow> n)
              in if total_size \<le> start_byte then (Inr (), files, [])
                 else if status r = 416 then (Inr (), files, [])
                 else if status r \<noteq> 200 \<and> status r \<noteq> 206 \<and> isl (raise_for_status r)
                   then (Inl (ClientResponseError (status r)), files, [])
                 else
                   (let total_size' = (case content_range r of None \<Rightarrow> total_size | Some t \<Rightarrow> t)
                    in if isl (raise_for_status r)
                         then (Inl (ClientResponseError (status r)), files, [])
                       else
                         (let m = (if 0 < start_byte then Append else Truncate);
                              opened = open_file abspath m files
                          in (Inr (),
                              foldl (write_chunk abspath) opened (chunks r),
                              ProgressBar total_size' start_byte # FOpen abspath m
                                # map (FWrite abspath) (chunks r))))))"


text \<open>A network that answers every request with the same response.\<close>

definition const_net :: "response \<Rightarrow> net" where
  "const_net r = (\<lambda>link headers. Some r)"

subsection \<open>\<^verbatim>\<open>get_remote_file_size\<close>\<close>

text \<open>
  A GET with \<^verbatim>\<open>Range: bytes=0-0\<close>; \<^verbatim>\<open>raise_for_status\<close> for statuses other than
  200 and 206; the total of \<^verbatim>\<open>Content-Range\<close> when present, else
  \<^verbatim>\<open>Content-Length\<close>, else 0.
\<close>

definition get_remote_file_size :: "net \<Rightarrow> string \<Rightarrow> py_error + nat" where
  "get_remote_file_size nw link =
     (case nw link (Some (0, Some 0)) of
        None \<Rightarrow> Inl ClientConnectionError
      | Some r \<Rightarrow>
          if status r \<noteq> 200 \<and> status r \<noteq> 206 \<and> isl (raise_for_status r)
            then Inl (ClientResponseError (status r))
          else (case content_range r of
                  Some t \<Rightarrow> Inr t
                | None \<Rightarrow> (case content_length r of Some n \<Rightarrow> Inr n | None \<Rightarrow> Inr 0)))"

subsection \<open>Items and \<^verbatim>\<open>download_video_subtitles_and_maybe_audio\<close>\<close>

text \<open>
  The dictionary \<^verbatim>\<open>process_entry\<close> returns. The three source dictionaries are
  association lists read with \<open>map_of\<close>; \<^verbatim>\<open>d[k] = v\<close> is \<open>dict_set\<close>.
\<close>

record media_metadata =
  mm_id :: string
  mm_datetime :: string
  mm_url :: string
  mm_title :: string
  mm_series_title :: string
  video_sources :: "(string \<times> string) list"
  subtitle_sources :: "(string \<times> string) list"
  audio_sources :: "(string \<times> string) list"

definition dict_set :: "string \<Rightarrow> string \<Rightarrow> (string \<times> string) list \<Rightarrow> (string \<times> string) list" where
  "dict_set k v d = (k, v) # filter (\<lambda>kv. fst kv \<noteq> k) d"

text \<open>
  The command line arguments the function reads: \<^verbatim>\<open>save_dir\<close>,
  \<^verbatim>\<open>video_quality\<close>, \<^verbatim>\<open>subtitles\<close> (\<open>None\<close> when no language is
  configured), \<^verbatim>\<open>audio_quality\<close>.
\<close>

record cli_args =
  save_dir :: string
  video_quality :: string
  subtitles :: "string list option"
  audio_quality :: string

text \<open>
  Lines 991 to 999: the video source of the configured quality; when the item has no
  video source at all, the audio source of the configured quality, and when that lookup
  raises, the error is logged and \<^verbatim>\<open>media_url\<close> stays \<^verbatim>\<open>None\<close>.
\<close>

definition select_media_url :: "cli_args \<Rightarrow> media_metadata \<Rightarrow> string option" where
  "select_media_url args m =
     (let media_url = map_of (video_sources m) (video_quality args)
      in if video_sources m = []
         then (case map_of (audio_sources m) (audio_quality args) of
                 Some u \<Rightarrow> Some u
               | None \<Rightarrow> media_url)
         else media_url)"

text \<open>
  \<^verbatim>\<open>datetime.strptime(s, "%Y-%m-%d__%H_%M").year\<close> on the strings \<open>strftime\<close>
  produces: four digits, two digits for each other field, the separators of the format,
  the fields within their ranges. Any other string is reported as \<^verbatim>\<open>ValueError\<close>
  (\<open>None\<close>). \<open>str_year\<close> is \<^verbatim>\<open>str(year)\<close> for a year from 1 to 9999.
\<close>

fun digits_value :: "nat \<Rightarrow> string \<Rightarrow> nat option" where
  "digits_value acc [] = Some acc"
| "digits_value acc (c # cs) =
     (if CHR ''0'' \<le> c \<and> c \<le> CHR ''9'' then digits_value (10 * acc + (of_char c - 48)) cs
      else None)"

definition strptime_year :: "string \<Rightarrow> nat option" where
  "strptime_year s =
     (if length s = 17 \<and> take 1 (drop 4 s) = ''-'' \<and> take 1 (drop 7 s) = ''-'' \<and>
         take 2 (drop 10 s) = ''__'' \<and> take 1 (drop 14 s) = ''_''
      then (case (digits_value 0 (take 4 s), digits_value 0 (take 2 (drop 5 s)),
                  digits_value 0 (take 2 (drop 8 s)), digits_value 0 (take 2 (drop 12 s)),
                  digits_value 0 (take 2 (drop 15 s))) of
              (Some y, Some mo, Some d, Some h, Some mi) \<Rightarrow>
                if 1 \<le> y \<and> 1 \<le> mo \<and> mo \<le> 12 \<and> 1 \<le> d \<and> d \<le> 31 \<and> h < 24 \<and> mi < 60
                then Some y else None
            | _ \<Rightarrow> None)
      else None)"

definition str_year :: "nat \<Rightarrow> string" where
  "str_year y = dropWhile (\<lambda>c. c = CHR ''0'') (pad4 y)"

text \<open>Whether a language tag is a key of the item's subtitle sources.\<close>

definition has_subtitle :: "media_metadata \<Rightarrow> string \<Rightarrow> bool" where
  "has_subtitle m t \<longleftrightarrow> map_of (subtitle_sources m) t \<noteq> None"

text \<open>
  The loop over the configured subtitle languages (lines 1052 to 1080). A language that
  is not a key of the item's subtitle sources raises \<^verbatim>\<open>KeyError\<close>, which the loop
  catches: it goes on with the next language. In size mode the loop adds
  \<^verbatim>\<open>get_remote_file_size(media_url)\<close>; otherwise it downloads the subtitle file. An
  exception of either call leaves the loop and the function.
\<close>

fun subtitle_loop ::
  "net \<Rightarrow> bool \<Rightarrow> media_metadata \<Rightarrow> string \<Rightarrow> string \<Rightarrow> string \<Rightarrow> string \<Rightarrow> string list
     \<Rightarrow> nat \<Rightarrow> fs \<Rightarrow> (py_error + nat) \<times> fs \<times> file_op list" where
  "subtitle_loop nw get_size m media_url media_extension media_filename parent [] filesize files =
     (Inr filesize, files, [])"
| "subtitle_loop nw get_size m media_url media_extension media_filename parent (subtitle # rest)
       filesize files =
     (case map_of (subtitle_sources m) subtitle of
        None \<Rightarrow>
          subtitle_loop nw get_size m media_url media_extension media_filename parent rest
            filesize files
      | Some subtitle_url \<Rightarrow>
          (case rsplit_dot subtitle_url of
             None \<Rightarrow> (Inl IndexError, files, [])
           | Some subtitle_extension \<Rightarrow>
               (let subtitle_filename = replace media_extension subtitle_extension media_filename;
                    subtitle_abspath = os_path_join parent subtitle_filename
                in if get_size
                   then (case get_remote_file_size nw media_url of
                           Inl e \<Rightarrow> (Inl e, files, [])
                         | Inr n \<Rightarrow>
                             subtitle_loop nw get_size m media_url media_extension media_filename
                               parent rest (filesize + n) files)
                   else (case download_file nw subtitle_url subtitle_abspath files of
                           (Inl e, files1, ops1) \<Rightarrow> (Inl e, files1, ops1)
                         | (Inr u, files1, ops1) \<Rightarrow>
                             (case subtitle_loop nw get_size m media_url media_extension
                                     media_filename parent rest filesize files1 of
                                (r, files2, ops2) \<Rightarrow> (r, files2, ops1 @ ops2))))))"

text \<open>
  The function itself. Its argument is an entry of \<^verbatim>\<open>series["videos_data"]\<close>, which
  \<^verbatim>\<open>gather_with_concurrency\<close> filled: a dictionary, or the exception
  \<^verbatim>\<open>process_entry\<close> raised (an exception object has no \<^verbatim>\<open>get\<close>, so the first
  line raises \<^verbatim>\<open>AttributeError\<close>). \<^verbatim>\<open>media_url.rsplit\<close> raises
  \<^verbatim>\<open>AttributeError\<close> when \<^verbatim>\<open>media_url\<close> is \<^verbatim>\<open>None\<close>. The result is the
  file size in size mode and \<^verbatim>\<open>None\<close> otherwise.
\<close>

definition download_video_subtitles_and_maybe_audio ::
  "cli_args \<Rightarrow> net \<Rightarrow> py_error + media_metadata \<Rightarrow> bool \<Rightarrow> fs
     \<Rightarrow> (py_error + nat option) \<times> fs \<times> file_op list" where
  "download_video_subtitles_and_maybe_audio args nw item get_size files =
     (case item of
        Inl raised \<Rightarrow> (Inl AttributeError, files, [])
      | Inr m \<Rightarrow>
          (case select_media_url args m of
             None \<Rightarrow> (Inl AttributeError, files, [])
           | Some media_url \<Rightarrow>
               (case rsplit_dot media_url of
                  None \<Rightarrow> (Inl IndexError, files, [])
                | Some media_extension \<Rightarrow>
                    (let media_filename =
                           make_safe_filename
                             (mm_datetime m @ ''__'' @ mm_title m @ ''__'' @ mm_id m @ ''.''
                                @ media_extension)
                     in case strptime_year (mm_datetime m) of
                          None \<Rightarrow> (Inl ValueError, files, [])
                        | Some y \<Rightarrow>
                            (let media_parent_dir =
                                   str_year y @ ''_'' @ make_safe_filename (mm_series_title m);
                                 parent = os_path_join (save_dir args) media_parent_dir;
                                 media_abspath = os_path_join parent media_filename;
                                 languages = (case subtitles args of None \<Rightarrow> [] | Some l \<Rightarrow> l)
                             in if get_size
                                then (case get_remote_file_size nw media_url of
                                        Inl e \<Rightarrow> (Inl e, files, [])
                                      | Inr filesize \<Rightarrow>
                                          (case subtitle_loop nw True m media_url media_extension
                                                  media_filename parent languages filesize files of
                                             (Inl e, files2, ops2) \<Rightarrow> (Inl e, files2, ops2)
                                           | (Inr sized, files2, ops2) \<Rightarrow>
                                               (Inr (Some sized), files2, ops2)))
                                else (case download_file nw media_url media_abspath files of
                                        (Inl e, files1, ops1) \<Rightarrow>
                                          (Inl e, files1, MakeDirs parent # ops1)
                                      | (Inr u, files1, ops1) \<Rightarrow>
                                          (case subtitle_loop nw False m media_url media_extension
                                                  media_filename parent languages 0 files1 of
                                             (Inl e, files2, ops2) \<Rightarrow>
                                               (Inl e, files2, MakeDirs parent # ops1 @ ops2)
                                           | (Inr sized, files2, ops2) \<Rightarrow>
                                               (Inr None, files2, MakeDirs parent # ops1 @ ops2))))))))"

subsection \<open>The portal, \<^verbatim>\<open>get_series_type\<close> and \<^verbatim>\<open>process_entry\<close>\<close>

text \<open>
  An entry of \<^verbatim>\<open>extract_video_entries(series["graphql"])\<close> and a series with its
  entries. An entry of type \<^verbatim>\<open>NotAllowed\<close> carries no other key, so reading its
  \<^verbatim>\<open>id\<close> raises \<^verbatim>\<open>KeyError\<close>.
\<close>

record entry =
  typename :: string
  entry_ident :: string
  entry_title :: string
  entry_series_title :: string
  entry_created :: py_datetime

record series =
  series_url :: string
  series_entries :: "entry list"
  login_type :: string

text \<open>
  What the browser shows, as a parameter: for the URL of a video page, whether the
  \<^verbatim>\<open>Download\<close> and the \<^verbatim>\<open>Verify\<close> button are visible when
  \<^verbatim>\<open>wait_for_either_button\<close> returns (both are invisible when the waits ran into
  their timeout); the links of the download dialog as pairs of \<^verbatim>\<open>href\<close> and label
  (\<open>None\<close> when Playwright raises because the dialog cannot be reached); what
  \<^verbatim>\<open>login_eth\<close> returns; whether \<^verbatim>\<open>login_protected\<close> returns the series; and the
  entries the metadata query returns for a series URL once the ETH session exists.
\<close>

record portal =
  page_buttons :: "string \<Rightarrow> bool \<times> bool"
  page_links :: "string \<Rightarrow> (string \<times> string) list option"
  eth_login :: bool
  protected_login :: "string \<Rightarrow> bool"
  refetched_entries :: "string \<Rightarrow> entry list"

definition get_series_type :: "portal \<Rightarrow> entry \<Rightarrow> series \<Rightarrow> py_error + string" where
  "get_series_type w e s =
     (if typename e = ''NotAllowed'' then Inr ''eth''
      else case after_first ''ev'' (entry_ident e) of
             None \<Rightarrow> Inl IndexError
           | Some entry_id \<Rightarrow>
               (let video_page_url = series_url s @ ''/v/'' @ entry_id;
                    (download_visible, verify_visible) = page_buttons w video_page_url
                in if download_visible then Inr ''open''
                   else if verify_visible then Inr ''protected''
                   else Inr ''none''))"

text \<open>
  The loop over the links of the download dialog (lines 607 to 634); \<^verbatim>\<open>label.strip()\<close>
  removes white space at both ends.
\<close>

definition whitespace :: string where
  "whitespace = [CHR '' '', CHR 0x09, CHR 0x0A, CHR 0x0B, CHR 0x0C, CHR 0x0D,
                 CHR 0x1C, CHR 0x1D, CHR 0x1E, CHR 0x1F]"

definition scan_link ::
  "(string \<times> string) list \<times> (string \<times> string) list \<times> (string \<times> string) list
     \<Rightarrow> string \<times> string
     \<Rightarrow> (string \<times> string) list \<times> (string \<times> string) list \<times> (string \<times> string) list" where
  "scan_link acc link =
     (case (acc, link) of
        ((videos, captions, audios), (href, raw_label)) \<Rightarrow>
          (let label = strip whitespace raw_label
           in if contains ''Video'' label \<and> endswith ''.mp4'' href
              then (let quality = (if contains ''640'' label then ''low''
                                   else if contains ''1280'' label then ''mid''
                                   else if contains ''1920'' label then ''high''
                                   else ''unknown'')
                    in (dict_set quality href videos, captions, audios))
              else if contains ''Caption'' label \<and> endswith ''.vtt'' href
              then (let subtitle_language = strip ''()'' (lstrip ''Caption '' label)
                    in (videos, dict_set subtitle_language href captions, audios))
              else if contains ''Audio'' label
              then (let quality = (if endswith ''.m4a'' href then ''m4a''
                                   else if endswith ''.mpeg'' href then ''mpeg''
                                   else if endswith ''.ogg'' href then ''ogg''
                                   else ''unknown'')
                    in (videos, captions, dict_set quality href audios))
              else (videos, captions, audios)))"

text \<open>
  \<^verbatim>\<open>process_entry\<close>. With \<^verbatim>\<open>protected_without_eth_login\<close> the source also calls
  \<^verbatim>\<open>login_protected\<close> on the page; that call catches every exception and its result
  is not used, so it shows here only through what the page then offers.
\<close>

definition process_entry :: "portal \<Rightarrow> entry \<Rightarrow> series \<Rightarrow> py_error + media_metadata" where
  "process_entry w e s =
     (if typename e = ''NotAllowed'' then Inl KeyError
      else case after_first ''ev'' (entry_ident e) of
             None \<Rightarrow> Inl IndexError
           | Some entry_id \<Rightarrow>
               (let video_title = strip [CHR 0x22, CHR 0x27, CHR '' ''] (entry_title e);
                    series_title = strip [CHR 0x22, CHR 0x27, CHR '' ''] (entry_series_title e);
                    video_page_url = series_url s @ ''/v/'' @ entry_id
                in case page_links w video_page_url of
                     None \<Rightarrow> Inl TimeoutError
                   | Some links \<Rightarrow>
                       (case foldl scan_link ([], [], []) links of
                          (videos, captions, audios) \<Rightarrow>
                            Inr \<lparr>mm_id = entry_id,
                                 mm_datetime = strftime (entry_created e),
                                 mm_url = video_page_url,
                                 mm_title = video_title,
                                 mm_series_title = series_title,
                                 video_sources = videos,
                                 subtitle_sources = captions,
                                 audio_sources = audios\<rparr>)))"

subsection \<open>\<^verbatim>\<open>main\<close>: classification, buckets and the three phases\<close>

text \<open>
  Lines 1517 to 1533: every series gets the type of its first entry; a series without
  entries ends the program (\<^verbatim>\<open>exit()\<close>).
\<close>

fun classify_all :: "portal \<Rightarrow> series list \<Rightarrow> py_error + series list" where
  "classify_all w [] = Inr []"
| "classify_all w (s # rest) =
     (case series_entries s of
        [] \<Rightarrow> Inl SystemExit
      | first_entry # others \<Rightarrow>
          (case get_series_type w first_entry s of
             Inl e \<Rightarrow> Inl e
           | Inr t \<Rightarrow>
               (case classify_all w rest of
                  Inl e \<Rightarrow> Inl e
                | Inr classified \<Rightarrow> Inr (s\<lparr>login_type := t\<rparr> # classified))))"

text \<open>
  Lines 1539 to 1548. The loop body is an \<^verbatim>\<open>if\<close> for \<^verbatim>\<open>"open"\<close> followed by
  an \<^verbatim>\<open>if\<close>/\<^verbatim>\<open>else\<close> for \<^verbatim>\<open>"protected"\<close>.
\<close>

record buckets =
  open_series :: "series list"
  protected_series :: "series list"
  eth_series :: "series list"

definition bucket_step :: "buckets \<Rightarrow> series \<Rightarrow> buckets" where
  "bucket_step b x =
     (let b1 = (if login_type x = ''open'' then b\<lparr>open_series := open_series b @ [x]\<rparr> else b)
      in if login_type x = ''protected''
         then b1\<lparr>protected_series := protected_series b1 @ [x]\<rparr>
         else b1\<lparr>eth_series := eth_series b1 @ [x]\<rparr>)"

definition tier_buckets :: "series list \<Rightarrow> buckets" where
  "tier_buckets series_videos_data =
     foldl bucket_step \<lparr>open_series = [], protected_series = [], eth_series = []\<rparr>
       series_videos_data"

text \<open>
  The work on one series, the same in the three phases (lines 1554 to 1598, 1089 to
  1135, 1660 to 1709): the metadata of every entry through the limiter, the size of every
  item through the limiter, \<^verbatim>\<open>sum(filesizes)\<close>, then the transfers through the
  limiter. Each gather returns, by position, the result or the exception of each task
  (\<open>gather_with_concurrency\<close> below); the tasks are taken here in the order of the list.
  \<^verbatim>\<open>sum\<close> raises \<^verbatim>\<open>TypeError\<close> when an entry of the list is an exception. The
  results of the transfers are not looked at. An event records that a stage of a phase
  began for a series.
\<close>

datatype tier_phase = OpenPhase | ProtectedPhase | EthPhase

datatype stage = MetadataFetch | SizeProbe | ByteTransfer

type_synonym event = "tier_phase \<times> stage \<times> string"

fun sum_filesizes :: "nat \<Rightarrow> (py_error + nat option) list \<Rightarrow> py_error + nat" where
  "sum_filesizes acc [] = Inr acc"
| "sum_filesizes acc (Inr (Some n) # rest) = sum_filesizes (acc + n) rest"
| "sum_filesizes acc (Inr None # rest) = Inl TypeError"
| "sum_filesizes acc (Inl e # rest) = Inl TypeError"

fun transfer_all ::
  "cli_args \<Rightarrow> net \<Rightarrow> (py_error + media_metadata) list \<Rightarrow> fs
     \<Rightarrow> (py_error + nat option) list \<times> fs" where
  "transfer_all args nw [] files = ([], files)"
| "transfer_all args nw (item # rest) files =
     (case download_video_subtitles_and_maybe_audio args nw item False files of
        (r, files1, ops1) \<Rightarrow>
          (case transfer_all args nw rest files1 of
             (rs, files2) \<Rightarrow> (r # rs, files2)))"

definition process_series ::
  "cli_args \<Rightarrow> portal \<Rightarrow> net \<Rightarrow> tier_phase \<Rightarrow> series \<Rightarrow> fs
     \<Rightarrow> (py_error + unit) \<times> fs \<times> event list" where
  "process_series args w nw ph s files =
     (let videos_data = map (\<lambda>e. process_entry w e s) (series_entries s);
          filesizes = map (\<lambda>video_metadata.
                             fst (download_video_subtitles_and_maybe_audio args nw video_metadata
                                    True files)) videos_data
      in case sum_filesizes 0 filesizes of
           Inl e \<Rightarrow>
             (Inl e, files, [(ph, MetadataFetch, series_url s), (ph, SizeProbe, series_url s)])
         | Inr pretty_sum \<Rightarrow>
             (case transfer_all args nw videos_data files of
                (results, files1) \<Rightarrow>
                  (Inr (), files1,
                   [(ph, MetadataFetch, series_url s), (ph, SizeProbe, series_url s),
                    (ph, ByteTransfer, series_url s)])))"

text \<open>A phase: the series of a bucket one after the other; an exception ends the run.\<close>

fun process_all ::
  "cli_args \<Rightarrow> portal \<Rightarrow> net \<Rightarrow> tier_phase \<Rightarrow> series list \<Rightarrow> fs
     \<Rightarrow> (py_error + unit) \<times> fs \<times> event list" where
  "process_all args w nw ph [] files = (Inr (), files, [])"
| "process_all args w nw ph (s # rest) files =
     (case process_series args w nw ph s files of
        (Inl e, files1, ev1) \<Rightarrow> (Inl e, files1, ev1)
      | (Inr u, files1, ev1) \<Rightarrow>
          (case process_all args w nw ph rest files1 of
             (r, files2, ev2) \<Rightarrow> (r, files2, ev1 @ ev2)))"

text \<open>
  \<^verbatim>\<open>main\<close> from line 1517 on: classification, buckets, the open series, the ETH login
  when the ETH bucket is not empty, the logins of the protected series, the protected
  series, and, when the ETH login succeeded, the series of the ETH bucket with their
  metadata fetched again.
\<close>

definition refetch :: "portal \<Rightarrow> series \<Rightarrow> series" where
  "refetch w s = s\<lparr>series_entries := refetched_entries w (series_url s)\<rparr>"

definition main ::
  "cli_args \<Rightarrow> portal \<Rightarrow> net \<Rightarrow> series list \<Rightarrow> fs \<Rightarrow> (py_error + unit) \<times> fs \<times> event list" where
  "main args w nw series_videos_data files =
     (case classify_all w series_videos_data of
        Inl e \<Rightarrow> (Inl e, files, [])
      | Inr classified \<Rightarrow>
          (let b = tier_buckets classified
           in case process_all args w nw OpenPhase (open_series b) files of
                (Inl e, files1, ev1) \<Rightarrow> (Inl e, files1, ev1)
              | (Inr u, files1, ev1) \<Rightarrow>
                  (let eth_success = (if eth_series b \<noteq> [] then eth_login w else False);
                       protected_series_logged_in =
                         filter (\<lambda>ps. protected_login w (series_url ps)) (protected_series b)
                   in if \<not> eth_success
                      then (case process_all args w nw ProtectedPhase
                                   protected_series_logged_in files1 of
                              (r, files2, ev2) \<Rightarrow> (r, files2, ev1 @ ev2))
                      else (case process_all args w nw ProtectedPhase
                                   protected_series_logged_in files1 of
                              (Inl e, files2, ev2) \<Rightarrow> (Inl e, files2, ev1 @ ev2)
                            | (Inr u2, files2, ev2) \<Rightarrow>
                                (case process_all args w nw EthPhase
                                        (map (refetch w) (eth_series b)) files2 of
                                   (r, files3, ev3) \<Rightarrow> (r, files3, ev1 @ ev2 @ ev3))))))"

subsection \<open>A small portal for the examples\<close>

text \<open>
  One series with two recordings. The page of the first offers a video in 1920 pixels and
  an English caption; the page of the second offers no link at all. The server holds four
  bytes of video and two bytes of caption. The buttons a video page shows are a parameter.
\<close>

definition example_args :: cli_args where
  "example_args =
     \<lparr>save_dir = ''/dl'', video_quality = ''high'', subtitles = Some [''en-US'', ''de-DE''],
      audio_quality = ''ogg''\<rparr>"

definition example_net :: net where
  "example_net link headers =
     (if link = ''https://cdn/v1.mp4''
      then Some \<lparr>status = 200, content_length = Some 4, content_range = None,
                 chunks = [''abcd'']\<rparr>
      else if link = ''https://cdn/v1.en.vtt''
      then Some \<lparr>status = 200, content_length = Some 2, content_range = None,
                 chunks = [''hi'']\<rparr>
      else None)"

definition lecture_one :: entry where
  "lecture_one =
     \<lparr>typename = ''AuthorizedEvent'', entry_ident = ''evabc'', entry_title = ''Intro'',
      entry_series_title = ''Algo Lab'',
      entry_created = \<lparr>dt_year = 2024, dt_month = 9, dt_day = 17, dt_hour = 8, dt_minute = 15,
                        dt_second = 0, dt_microsecond = 0\<rparr>\<rparr>"

definition lecture_two :: entry where
  "lecture_two =
     \<lparr>typename = ''AuthorizedEvent'', entry_ident = ''evxyz'', entry_title = ''Second'',
      entry_series_title = ''Algo Lab'',
      entry_created = \<lparr>dt_year = 2024, dt_month = 9, dt_day = 24, dt_hour = 8, dt_minute = 15,
                        dt_second = 0, dt_microsecond = 0\<rparr>\<rparr>"

definition example_portal :: "bool \<times> bool \<Rightarrow> portal" where
  "example_portal buttons =
     \<lparr>page_buttons = (\<lambda>page. buttons),
      page_links = (\<lambda>page. if page = ''https://video.ethz.ch/s/v/abc''
                            then Some [(''https://cdn/v1.mp4'', '' Video (1920x1080) ''),
                                       (''https://cdn/v1.en.vtt'', ''Caption (en-US)'')]
                            else Some []),
      eth_login = True,
      protected_login = (\<lambda>page. True),
      refetched_entries = (\<lambda>page. [lecture_one])\<rparr>"

definition example_item :: media_metadata where
  "example_item =
     \<lparr>mm_id = ''abc'', mm_datetime = ''2024-09-17__08_15'',
      mm_url = ''https://video.ethz.ch/s/v/abc'', mm_title = ''Intro'',
      mm_series_title = ''Algo Lab'',
      video_sources = [(''high'', ''https://cdn/v1.mp4'')],
      subtitle_sources = [(''en-US'', ''https://cdn/v1.en.vtt'')],
      audio_sources = []\<rparr>"

definition example_series :: "entry list \<Rightarrow> series" where
  "example_series entries =
     \<lparr>series_url = ''https://video.ethz.ch/s'', series_entries = entries, login_type = []\<rparr>"

subsection \<open>\<^verbatim>\<open>gather_with_concurrency\<close>\<close>

text \<open>
  \<^verbatim>\<open>gather_with_concurrency(n, *coros)\<close> creates \<^verbatim>\<open>asyncio.Semaphore(n)\<close>, wraps
  every coroutine in \<^verbatim>\<open>sem_coro\<close> (\<^verbatim>\<open>async with semaphore: return await coro\<close>)
  and hands the wrapped coroutines to \<^verbatim>\<open>asyncio.gather(..., return_exceptions=True)\<close>.

  A coroutine is described by the number of times it suspends before it finishes and by
  how it finishes: it returns a value or raises. A wrapped coroutine is in one of three
  phases: \<open>Queued\<close> (it has not entered \<^verbatim>\<open>async with semaphore\<close> yet),
  \<open>Holding k\<close> (it is inside the block, and the awaited coroutine has \<open>k\<close>
  suspensions left), \<open>Finished r\<close> (it has left the block, which released the
  semaphore, with result or exception \<open>r\<close>).

  The event loop decides which task runs next; the model takes these decisions as a list
  of task indices, the schedule. A task that is picked while it cannot move (it waits for
  the semaphore, it has finished, or the index names no task) leaves the state as it is.
\<close>

datatype 'a outcome = Returned 'a | Raised py_error

record 'a coro =
  suspensions :: nat
  completes :: "'a outcome"

datatype 'a slot = Queued | Holding nat | Finished "'a outcome"

record 'a limiter =
  sem_value :: nat
  slots :: "'a slot list"

definition start :: "nat \<Rightarrow> 'a coro list \<Rightarrow> 'a limiter" where
  "start n coros = \<lparr>sem_value = n, slots = map (\<lambda>c. Queued) coros\<rparr>"

definition advance :: "'a coro list \<Rightarrow> 'a limiter \<Rightarrow> nat \<Rightarrow> 'a limiter" where
  "advance coros s i =
     (if length (slots s) \<le> i then s
      else case slots s ! i of
             Queued \<Rightarrow>
               if 0 < sem_value s
               then s\<lparr>sem_value := sem_value s - 1,
                      slots := (slots s)[i := Holding (suspensions (coros ! i))]\<rparr>
               else s
           | Holding k \<Rightarrow>
               (case k of
                  Suc k' \<Rightarrow> s\<lparr>slots := (slots s)[i := Holding k']\<rparr>
                | 0 \<Rightarrow> s\<lparr>sem_value := sem_value s + 1,
                          slots := (slots s)[i := Finished (completes (coros ! i))]\<rparr>)
           | Finished r \<Rightarrow> s)"

definition run :: "nat \<Rightarrow> 'a coro list \<Rightarrow> nat list \<Rightarrow> 'a limiter" where
  "run n coros schedule = foldl (advance coros) (start n coros) schedule"










section \<open>Properties of \<^verbatim>\<open>download_file\<close>\<close>



lemma download_file_opens:
  assumes "download_file nw link abspath files = (res, files', ops)"
    and "FOpen p m \<in> set ops"
  shows "p = abspath \<and> m = (if 0 < file_size files abspath then Append else Truncate)"
  using assms
  by (auto simp add: download_file_def Let_def split: option.splits if_splits)



text \<open>
  C2, as stated, fails: the destination holds two bytes, so \<^verbatim>\<open>Range: bytes=2-\<close> is
  sent; the server ignores it and answers 200 with the full four bytes and no
  \<^verbatim>\<open>Content-Range\<close>. The file is opened in append mode and ends as the old two bytes
  followed by the full body.
\<close>

theorem download_file_appends_without_content_range:
  "range_request (file_size [''/tmp/a.mp4'' \<mapsto> ''ab''] ''/tmp/a.mp4'') = Some (2, None) \<and>
   content_range \<lparr>status = 200, content_length = Some 4, content_range = None, chunks = [''abcd'']\<rparr> = None \<and>
   download_file
     (const_net \<lparr>status = 200, content_length = Some 4, content_range = None, chunks = [''abcd'']\<rparr>)
     ''https://video.ethz.ch/a.mp4'' ''/tmp/a.mp4'' [''/tmp/a.mp4'' \<mapsto> ''ab'']
   = (Inr (), [''/tmp/a.mp4'' \<mapsto> ''ababcd''],
      [ProgressBar 4 2, FOpen ''/tmp/a.mp4'' Append, FWrite ''/tmp/a.mp4'' ''abcd''])"
  by (simp add: download_file_def const_net_def file_size_def range_request_def
      raise_for_status_def open_file_def write_chunk_def)

text \<open>
  C2, amended. Whenever a call opens a file, it is the destination, and the mode follows
  from the size the destination had before the call alone: append when that size is
  positive (a range request was sent), truncate when it is zero. Whether the response
  carries \<^verbatim>\<open>Content-Range\<close> plays no part.
\<close>

theorem download_file_mode_by_existing_size:
  assumes "download_file nw link abspath files = (res, files', ops)"
    and "FOpen p m \<in> set ops"
  shows "p = abspath \<and> (m = Append \<longleftrightarrow> 0 < file_size files abspath) \<and>
         (m = Truncate \<longleftrightarrow> file_size files abspath = 0)"
  using download_file_opens [OF assms] by auto

theorem download_file_mode_by_existing_size_witness:
  "download_file
      (const_net \<lparr>status = 206, content_length = Some 3, content_range = Some 4, chunks = [''bcd'']\<rparr>)
      ''https://video.ethz.ch/a.mp4'' ''/tmp/a.mp4'' [''/tmp/a.mp4'' \<mapsto> ''a'']
    = (Inr (), [''/tmp/a.mp4'' \<mapsto> ''abcd''],
       [ProgressBar 4 1, FOpen ''/tmp/a.mp4'' Append, FWrite ''/tmp/a.mp4'' ''bcd'']) \<and>
   FOpen ''/tmp/a.mp4'' Append
      \<in> set [ProgressBar 4 1, FOpen ''/tmp/a.mp4'' Append, FWrite ''/tmp/a.mp4'' ''bcd''] \<and>
   0 < file_size [''/tmp/a.mp4'' \<mapsto> ''a''] ''/tmp/a.mp4''"
proof -
  have run: "download_file
      (const_net \<lparr>status = 206, content_length = Some 3, content_range = Some 4, chunks = [''bcd'']\<rparr>)
      ''https://video.ethz.ch/a.mp4'' ''/tmp/a.mp4'' [''/tmp/a.mp4'' \<mapsto> ''a'']
    = (Inr (), [''/tmp/a.mp4'' \<mapsto> ''abcd''],
       [ProgressBar 4 1, FOpen ''/tmp/a.mp4'' Append, FWrite ''/tmp/a.mp4'' ''bcd''])"
    by (simp add: download_file_def const_net_def file_size_def range_request_def
        raise_for_status_def open_file_def write_chunk_def)
  have opened: "FOpen ''/tmp/a.mp4'' Append
      \<in> set [ProgressBar 4 1, FOpen ''/tmp/a.mp4'' Append, FWrite ''/tmp/a.mp4'' ''bcd'']"
    by simp
  from download_file_mode_by_existing_size [OF run opened]
  have "0 < file_size [''/tmp/a.mp4'' \<mapsto> ''a''] ''/tmp/a.mp4''"
    by simp
  with run opened show ?thesis by blast
qed

text \<open>
  C4: the comparison of the existing size with \<^verbatim>\<open>Content-Length\<close> is made before
  the status is looked at. A partial file of five bytes and a 500 response whose body has
  three bytes: the call returns as if the file were complete. A fresh destination and a 404
  with \<^verbatim>\<open>Content-Length: 0\<close>: the same.
\<close>

theorem download_file_error_status_returns_silently:
  "download_file
     (const_net \<lparr>status = 500, content_length = Some 3, content_range = None, chunks = [''err'']\<rparr>)
     ''https://video.ethz.ch/a.mp4'' ''/tmp/a.mp4'' [''/tmp/a.mp4'' \<mapsto> ''abcde'']
   = (Inr (), [''/tmp/a.mp4'' \<mapsto> ''abcde''], []) \<and>
   download_file
     (const_net \<lparr>status = 404, content_length = Some 0, content_range = None, chunks = []\<rparr>)
     ''https://video.ethz.ch/a.mp4'' ''/tmp/a.mp4'' Map.empty
   = (Inr (), Map.empty, [])"
  by (simp add: download_file_def const_net_def file_size_def range_request_def)

text \<open>
  The early return compares the existing size with \<^verbatim>\<open>Content-Length\<close>, which for a
  206 response is the length of the remaining part, not the total. Whenever that length
  does not exceed the existing size the call returns without writing, whatever the status
  and \<^verbatim>\<open>Content-Range\<close>: a transfer interrupted after half of the file or more is
  not completed by the next call.
\<close>

theorem download_file_short_remainder_not_written:
  assumes "nw link (range_request (file_size files abspath)) = Some r"
    and "content_length r = Some n" and "n \<le> file_size files abspath"
  shows "download_file nw link abspath files = (Inr (), files, [])"
  using assms by (simp add: download_file_def Let_def)

theorem download_file_short_remainder_not_written_witness:
  "range_request (file_size [''/tmp/a.mp4'' \<mapsto> ''ab''] ''/tmp/a.mp4'') = Some (2, None) \<and>
   download_file
     (const_net \<lparr>status = 206, content_length = Some 2, content_range = Some 4, chunks = [''cd'']\<rparr>)
     ''https://video.ethz.ch/a.mp4'' ''/tmp/a.mp4'' [''/tmp/a.mp4'' \<mapsto> ''ab'']
   = (Inr (), [''/tmp/a.mp4'' \<mapsto> ''ab''], [])"
proof -
  let ?r = "\<lparr>status = 206, content_length = Some 2, content_range = Some 4, chunks = [''cd'']\<rparr>"
  have req: "range_request (file_size [''/tmp/a.mp4'' \<mapsto> ''ab''] ''/tmp/a.mp4'') = Some (2, None)"
    by (simp add: range_request_def file_size_def)
  have answer: "const_net ?r ''https://video.ethz.ch/a.mp4''
      (range_request (file_size [''/tmp/a.mp4'' \<mapsto> ''ab''] ''/tmp/a.mp4'')) = Some ?r"
    by (simp add: const_net_def)
  have len: "content_length ?r = Some 2" by simp
  have small: "(2::nat) \<le> file_size [''/tmp/a.mp4'' \<mapsto> ''ab''] ''/tmp/a.mp4''"
    by (simp add: file_size_def)
  from download_file_short_remainder_not_written
         [where nw = "const_net ?r" and link = "''https://video.ethz.ch/a.mp4''"
            and files = "[''/tmp/a.mp4'' \<mapsto> ''ab'']" and abspath = "''/tmp/a.mp4''"
            and r = ?r and n = 2, OF answer len small] req
  show ?thesis by simp
qed

section \<open>Properties of \<^verbatim>\<open>gather_with_concurrency\<close>\<close>


lemma advance_length [simp]: "length (slots (advance coros s i)) = length (slots s)"
  by (auto simp: advance_def split: slot.splits nat.splits)












lemma limiter_neq_slots: "slots s' \<noteq> slots s \<Longrightarrow> s' \<noteq> s"
  by auto
















section \<open>Properties of the filename timestamp\<close>

lemma digit_char_less: "a < 10 \<Longrightarrow> b < 10 \<Longrightarrow> digit_char a < digit_char b \<longleftrightarrow> a < b"
  by (simp add: digit_char_def less_char_def)

lemma digit_char_eq: "a < 10 \<Longrightarrow> b < 10 \<Longrightarrow> digit_char a = digit_char b \<longleftrightarrow> a = b"
  using digit_char_less [of a b] digit_char_less [of b a] by (metis less_irrefl linorder_neqE_nat)

lemma base_less:
  fixes k :: nat
  assumes "ra < k" and "rb < k"
  shows "k * qa + ra < k * qb + rb \<longleftrightarrow> qa < qb \<or> qa = qb \<and> ra < rb"
proof (cases qa qb rule: linorder_cases)
  case less
  then have "Suc qa \<le> qb" by simp
  then have "k * Suc qa \<le> k * qb" by (rule mult_le_mono2)
  with assms less show ?thesis by simp
next
  case equal
  then show ?thesis by simp
next
  case greater
  then have "Suc qb \<le> qa" by simp
  then have "k * Suc qb \<le> k * qa" by (rule mult_le_mono2)
  with assms greater show ?thesis by simp
qed

lemma split_less:
  fixes k :: nat
  assumes "0 < k"
  shows "a < b \<longleftrightarrow> a div k < b div k \<or> a div k = b div k \<and> a mod k < b mod k"
proof -
  have "a < b \<longleftrightarrow> k * (a div k) + a mod k < k * (b div k) + b mod k" by simp
  also have "\<dots> \<longleftrightarrow> a div k < b div k \<or> a div k = b div k \<and> a mod k < b mod k"
    using assms by (intro base_less) simp_all
  finally show ?thesis .
qed

lemma split_eq:
  fixes k :: nat
  shows "a = b \<longleftrightarrow> a div k = b div k \<and> a mod k = b mod k"
  by (metis div_mult_mod_eq)

lemma pad2_less:
  assumes "a < 100" and "b < 100"
  shows "pad2 a @ x < pad2 b @ y \<longleftrightarrow> a < b \<or> a = b \<and> x < y"
proof -
  have d: "a div 10 mod 10 = a div 10" "b div 10 mod 10 = b div 10"
    using assms by simp_all
  have r: "a div 10 < 10" "b div 10 < 10" "a mod 10 < 10" "b mod 10 < 10"
    using assms by simp_all
  have "pad2 a @ x < pad2 b @ y \<longleftrightarrow>
        a div 10 < b div 10 \<or> a div 10 = b div 10 \<and> (a mod 10 < b mod 10 \<or> a mod 10 = b mod 10 \<and> x < y)"
    unfolding pad2_def d by (simp add: digit_char_less digit_char_eq r)
  also have "\<dots> \<longleftrightarrow> a < b \<or> a = b \<and> x < y"
  proof -
    have lt: "a < b \<longleftrightarrow> a div 10 < b div 10 \<or> a div 10 = b div 10 \<and> a mod 10 < b mod 10"
      by (rule split_less) simp
    have eq: "a = b \<longleftrightarrow> a div 10 = b div 10 \<and> a mod 10 = b mod 10"
      by (rule split_eq)
    from lt eq show ?thesis by blast
  qed
  finally show ?thesis .
qed

lemma pad4_split: "pad4 n = pad2 (n div 100) @ pad2 (n mod 100)"
proof -
  have a: "n div 100 div 10 = n div 1000" by (simp add: div_mult2_eq [symmetric])
  have "n mod (10 * 10) = 10 * (n div 10 mod 10) + n mod 10" by (rule mod_mult2_eq)
  then have "n mod 100 = 10 * (n div 10 mod 10) + n mod 10" by simp
  then have "n mod 100 div 10 = n div 10 mod 10" by simp
  then have b: "n mod 100 div 10 mod 10 = n div 10 mod 10" by simp
  have c: "n mod 100 mod 10 = n mod 10" by (simp add: mod_mod_cancel)
  show ?thesis by (simp add: pad4_def pad2_def a b c)
qed


lemma pad4_less:
  assumes "a < 10000" and "b < 10000"
  shows "pad4 a @ x < pad4 b @ y \<longleftrightarrow> a < b \<or> a = b \<and> x < y"
proof -
  have r: "a div 100 < 100" "b div 100 < 100" "a mod 100 < 100" "b mod 100 < 100"
    using assms by simp_all
  have lt: "a < b \<longleftrightarrow> a div 100 < b div 100 \<or> a div 100 = b div 100 \<and> a mod 100 < b mod 100"
    by (rule split_less) simp
  have eq: "a = b \<longleftrightarrow> a div 100 = b div 100 \<and> a mod 100 = b mod 100"
    by (rule split_eq)
  have "pad4 a @ x < pad4 b @ y \<longleftrightarrow>
        a div 100 < b div 100 \<or> a div 100 = b div 100 \<and>
          (a mod 100 < b mod 100 \<or> a mod 100 = b mod 100 \<and> x < y)"
    by (simp add: pad4_split pad2_less r)
  also have "\<dots> \<longleftrightarrow> a < b \<or> a = b \<and> x < y"
    using lt eq by blast
  finally show ?thesis .
qed

lemma pad2_less_last:
  assumes "a < 100" and "b < 100"
  shows "pad2 a < pad2 b \<longleftrightarrow> a < b"
  using pad2_less [OF assms, of "[]" "[]"] by simp

lemma strftime_less:
  assumes "valid_datetime a" and "valid_datetime b"
  shows "strftime a < strftime b \<longleftrightarrow> minute_fields a < minute_fields b"
proof -
  from assms have r:
    "dt_year a < 10000" "dt_year b < 10000" "dt_month a < 100" "dt_month b < 100"
    "dt_day a < 100" "dt_day b < 100" "dt_hour a < 100" "dt_hour b < 100"
    "dt_minute a < 100" "dt_minute b < 100"
    by (simp_all add: valid_datetime_def)
  show ?thesis
    by (simp add: strftime_def minute_fields_def pad4_less pad2_less pad2_less_last r)
qed

lemma strftime_eq:
  assumes "valid_datetime a" and "valid_datetime b"
  shows "strftime a = strftime b \<longleftrightarrow> minute_fields a = minute_fields b"
proof -
  have "strftime a = strftime b \<longleftrightarrow> \<not> strftime a < strftime b \<and> \<not> strftime b < strftime a"
    by auto
  also have "\<dots> \<longleftrightarrow> \<not> minute_fields a < minute_fields b \<and> \<not> minute_fields b < minute_fields a"
    by (simp add: strftime_less assms)
  also have "\<dots> \<longleftrightarrow> minute_fields a = minute_fields b"
    by auto
  finally show ?thesis .
qed

lemma earlier_to_minute:
  "earlier (to_minute a) (to_minute b) \<longleftrightarrow> minute_fields a < minute_fields b"
  by (simp add: earlier_def to_minute_def dt_fields_def minute_fields_def)

lemma earlier_minute_fields:
  "earlier a b \<Longrightarrow> minute_fields a < minute_fields b \<or> minute_fields a = minute_fields b"
  by (auto simp add: earlier_def dt_fields_def minute_fields_def)

lemma to_minute_eq:
  "to_minute a = to_minute b \<longleftrightarrow> minute_fields a = minute_fields b \<and> py_datetime.more a = py_datetime.more b"
  by (cases a; cases b) (auto simp add: to_minute_def minute_fields_def)

text \<open>
  C10, amended. For two timestamps with four-digit years, the formatted strings compare
  lexicographically exactly as the timestamps cut to the minute compare chronologically;
  the strings are equal exactly when the timestamps agree up to the minute; and an earlier
  timestamp never gets the greater string.
\<close>

theorem strftime_orders_by_minute:
  fixes a b :: py_datetime
  assumes "valid_datetime a" and "valid_datetime b"
  shows "(strftime a < strftime b \<longleftrightarrow> earlier (to_minute a) (to_minute b)) \<and>
         (strftime a = strftime b \<longleftrightarrow> to_minute a = to_minute b) \<and>
         (earlier a b \<longrightarrow> strftime a \<le> strftime b)"
proof -
  have 1: "strftime a < strftime b \<longleftrightarrow> earlier (to_minute a) (to_minute b)"
    by (simp add: strftime_less assms earlier_to_minute)
  have 2: "strftime a = strftime b \<longleftrightarrow> to_minute a = to_minute b"
    by (simp add: strftime_eq assms to_minute_eq)
  have 3: "earlier a b \<longrightarrow> strftime a \<le> strftime b"
  proof
    assume "earlier a b"
    then have "minute_fields a < minute_fields b \<or> minute_fields a = minute_fields b"
      by (rule earlier_minute_fields)
    then have "strftime a < strftime b \<or> strftime a = strftime b"
      by (simp add: strftime_less strftime_eq assms)
    then show "strftime a \<le> strftime b" by auto
  qed
  from 1 2 3 show ?thesis by blast
qed

theorem strftime_orders_by_minute_witness:
  "valid_datetime \<lparr>dt_year = 2024, dt_month = 9, dt_day = 17, dt_hour = 8, dt_minute = 15, dt_second = 40, dt_microsecond = 0\<rparr> \<and>
   valid_datetime \<lparr>dt_year = 2024, dt_month = 10, dt_day = 1, dt_hour = 7, dt_minute = 5, dt_second = 3, dt_microsecond = 0\<rparr> \<and>
   earlier \<lparr>dt_year = 2024, dt_month = 9, dt_day = 17, dt_hour = 8, dt_minute = 15, dt_second = 40, dt_microsecond = 0\<rparr>
           \<lparr>dt_year = 2024, dt_month = 10, dt_day = 1, dt_hour = 7, dt_minute = 5, dt_second = 3, dt_microsecond = 0\<rparr> \<and>
   strftime \<lparr>dt_year = 2024, dt_month = 9, dt_day = 17, dt_hour = 8, dt_minute = 15, dt_second = 40, dt_microsecond = 0\<rparr>
     < strftime \<lparr>dt_year = 2024, dt_month = 10, dt_day = 1, dt_hour = 7, dt_minute = 5, dt_second = 3, dt_microsecond = 0\<rparr>"
proof -
  let ?a = "\<lparr>dt_year = 2024, dt_month = 9, dt_day = 17, dt_hour = 8, dt_minute = 15, dt_second = 40, dt_microsecond = 0\<rparr>"
  let ?b = "\<lparr>dt_year = 2024, dt_month = 10, dt_day = 1, dt_hour = 7, dt_minute = 5, dt_second = 3, dt_microsecond = 0\<rparr>"
  have va: "valid_datetime ?a" and vb: "valid_datetime ?b"
    by (simp_all add: valid_datetime_def)
  have e: "earlier ?a ?b" and em: "earlier (to_minute ?a) (to_minute ?b)"
    by (simp_all add: earlier_def dt_fields_def to_minute_def)
  from strftime_orders_by_minute [OF va vb] em have "strftime ?a < strftime ?b"
    by blast
  with va vb e show ?thesis by blast
qed

text \<open>
  C10, as stated, fails: the format drops the seconds, so two recordings made within the
  same minute are in chronological order while their strings are equal, hence not in
  lexicographic order.
\<close>

theorem strftime_same_minute:
  "earlier \<lparr>dt_year = 2024, dt_month = 9, dt_day = 17, dt_hour = 8, dt_minute = 15, dt_second = 0, dt_microsecond = 0\<rparr>
           \<lparr>dt_year = 2024, dt_month = 9, dt_day = 17, dt_hour = 8, dt_minute = 15, dt_second = 30, dt_microsecond = 0\<rparr> \<and>
   \<not> strftime \<lparr>dt_year = 2024, dt_month = 9, dt_day = 17, dt_hour = 8, dt_minute = 15, dt_second = 0, dt_microsecond = 0\<rparr>
       < strftime \<lparr>dt_year = 2024, dt_month = 9, dt_day = 17, dt_hour = 8, dt_minute = 15, dt_second = 30, dt_microsecond = 0\<rparr> \<and>
   strftime \<lparr>dt_year = 2024, dt_month = 9, dt_day = 17, dt_hour = 8, dt_minute = 15, dt_second = 0, dt_microsecond = 0\<rparr>
     = ''2024-09-17__08_15'' \<and>
   strftime \<lparr>dt_year = 2024, dt_month = 9, dt_day = 17, dt_hour = 8, dt_minute = 15, dt_second = 30, dt_microsecond = 0\<rparr>
     = ''2024-09-17__08_15''"
  by code_simp

section \<open>Properties of the item download\<close>

lemma subtitle_loop_skips_absent:
  "subtitle_loop nw get_size m media_url media_extension media_filename parent
     (filter (has_subtitle m) langs) filesize files
   = subtitle_loop nw get_size m media_url media_extension media_filename parent langs
       filesize files"
proof (induction langs arbitrary: filesize files get_size)
  case Nil
  show ?case by simp
next
  case (Cons t langs)
  show ?case
  proof (cases "map_of (subtitle_sources m) t")
    case None
    then have "\<not> has_subtitle m t" by (simp add: has_subtitle_def)
    with None show ?thesis by (simp add: Cons.IH)
  next
    case (Some link)
    then have "has_subtitle m t" by (simp add: has_subtitle_def)
    with Some show ?thesis
      by (simp add: Cons.IH Let_def split: option.splits sum.splits prod.splits)
  qed
qed

lemma subtitle_loop_all_absent:
  assumes "\<forall>t \<in> set langs. map_of (subtitle_sources m) t = None"
  shows "subtitle_loop nw get_size m media_url media_extension media_filename parent langs
           filesize files = (Inr filesize, files, [])"
  using assms by (induction langs) simp_all

lemma select_media_url_subtitles [simp]:
  "select_media_url (args\<lparr>subtitles := l\<rparr>) m = select_media_url args m"
  by (simp add: select_media_url_def Let_def)

lemma download_languages:
  assumes "\<And>media_url media_extension media_filename parent filesize files1.
             subtitle_loop nw get_size m media_url media_extension media_filename parent
               (case l1 of None \<Rightarrow> [] | Some l \<Rightarrow> l) filesize files1
           = subtitle_loop nw get_size m media_url media_extension media_filename parent
               (case l2 of None \<Rightarrow> [] | Some l \<Rightarrow> l) filesize files1"
  shows "download_video_subtitles_and_maybe_audio (args\<lparr>subtitles := l1\<rparr>) nw (Inr m)
           get_size files
         = download_video_subtitles_and_maybe_audio (args\<lparr>subtitles := l2\<rparr>) nw (Inr m)
             get_size files"
proof (cases "select_media_url args m")
  case None
  then show ?thesis by (simp add: download_video_subtitles_and_maybe_audio_def)
next
  case (Some media_url)
  note sel = this
  show ?thesis
  proof (cases "rsplit_dot media_url")
    case None
    with sel show ?thesis by (simp add: download_video_subtitles_and_maybe_audio_def)
  next
    case (Some media_extension)
    note ext = this
    show ?thesis
    proof (cases "strptime_year (mm_datetime m)")
      case None
      with sel ext show ?thesis by (simp add: download_video_subtitles_and_maybe_audio_def)
    next
      case (Some y)
      show ?thesis
      proof (cases get_size)
        case True
        with sel ext Some assms show ?thesis
          by (simp add: download_video_subtitles_and_maybe_audio_def Let_def
              split: sum.splits prod.splits)
      next
        case False
        with sel ext Some assms show ?thesis
          by (simp add: download_video_subtitles_and_maybe_audio_def Let_def
              split: sum.splits prod.splits)
      qed
    qed
  qed
qed

lemma download_skips_absent:
  "download_video_subtitles_and_maybe_audio
     (args\<lparr>subtitles := Some (filter (has_subtitle m) langs)\<rparr>) nw (Inr m) get_size files
   = download_video_subtitles_and_maybe_audio (args\<lparr>subtitles := Some langs\<rparr>) nw (Inr m)
       get_size files"
  by (rule download_languages) (simp add: subtitle_loop_skips_absent)

lemma download_all_absent:
  assumes "\<forall>t \<in> set langs. map_of (subtitle_sources m) t = None"
  shows "download_video_subtitles_and_maybe_audio (args\<lparr>subtitles := Some langs\<rparr>) nw (Inr m)
           get_size files
         = download_video_subtitles_and_maybe_audio (args\<lparr>subtitles := None\<rparr>) nw (Inr m)
             get_size files"
  by (rule download_languages) (simp add: subtitle_loop_all_absent [OF assms])

text \<open>
  C9. For every item, every list of configured language tags, in both modes of the
  function: the call does exactly what it does with the tags that are keys of the item's
  subtitle sources alone, so a tag that is absent raises nothing and changes neither the
  result, nor the files, nor the operations; and when every configured tag is absent, the
  call does exactly what it does with no language configured, which is the transfer of
  the media file alone.
\<close>

theorem absent_subtitle_languages_skipped:
  "download_video_subtitles_and_maybe_audio (args\<lparr>subtitles := Some langs\<rparr>) nw (Inr m)
       get_size files
     = download_video_subtitles_and_maybe_audio
         (args\<lparr>subtitles := Some (filter (has_subtitle m) langs)\<rparr>) nw (Inr m) get_size files \<and>
   ((\<forall>t \<in> set langs. map_of (subtitle_sources m) t = None) \<longrightarrow>
      download_video_subtitles_and_maybe_audio (args\<lparr>subtitles := Some langs\<rparr>) nw (Inr m)
          get_size files
        = download_video_subtitles_and_maybe_audio (args\<lparr>subtitles := None\<rparr>) nw (Inr m)
            get_size files)"
proof -
  have "download_video_subtitles_and_maybe_audio (args\<lparr>subtitles := Some langs\<rparr>) nw (Inr m)
          get_size files
        = download_video_subtitles_and_maybe_audio
            (args\<lparr>subtitles := Some (filter (has_subtitle m) langs)\<rparr>) nw (Inr m) get_size files"
    by (rule download_skips_absent [symmetric])
  moreover have "download_video_subtitles_and_maybe_audio (args\<lparr>subtitles := Some langs\<rparr>) nw
          (Inr m) get_size files
        = download_video_subtitles_and_maybe_audio (args\<lparr>subtitles := None\<rparr>) nw (Inr m)
            get_size files"
    if "\<forall>t \<in> set langs. map_of (subtitle_sources m) t = None"
    using that by (rule download_all_absent)
  ultimately show ?thesis by blast
qed

theorem absent_subtitle_languages_skipped_witness:
  "process_entry (example_portal (True, False)) lecture_one (example_series [lecture_one])
     = Inr example_item \<and>
   filter (has_subtitle example_item) [''en-US'', ''de-DE''] = [''en-US''] \<and>
   download_video_subtitles_and_maybe_audio
       (example_args\<lparr>subtitles := Some [''en-US'', ''de-DE'']\<rparr>) example_net (Inr example_item)
       False Map.empty
     = download_video_subtitles_and_maybe_audio
         (example_args\<lparr>subtitles := Some [''en-US'']\<rparr>) example_net (Inr example_item)
         False Map.empty \<and>
   fst (download_video_subtitles_and_maybe_audio
          (example_args\<lparr>subtitles := Some [''en-US'', ''de-DE'']\<rparr>) example_net
          (Inr example_item) False Map.empty) = Inr None \<and>
   snd (snd (download_video_subtitles_and_maybe_audio
          (example_args\<lparr>subtitles := Some [''en-US'', ''de-DE'']\<rparr>) example_net
          (Inr example_item) False Map.empty))
     = [MakeDirs ''/dl/2024_Algo_Lab'', ProgressBar 4 0, FOpen ''/dl/2024_Algo_Lab/2024-09-17__08_15__Intro__abc.mp4'' Truncate, FWrite ''/dl/2024_Algo_Lab/2024-09-17__08_15__Intro__abc.mp4'' ''abcd'',
        ProgressBar 2 0, FOpen ''/dl/2024_Algo_Lab/2024-09-17__08_15__Intro__abc.vtt'' Truncate, FWrite ''/dl/2024_Algo_Lab/2024-09-17__08_15__Intro__abc.vtt'' ''hi'']"
proof -
  have item: "process_entry (example_portal (True, False)) lecture_one
      (example_series [lecture_one]) = Inr example_item"
    by code_simp
  have present: "filter (has_subtitle example_item) [''en-US'', ''de-DE''] = [''en-US'']"
    by code_simp
  have res: "fst (download_video_subtitles_and_maybe_audio
      (example_args\<lparr>subtitles := Some [''en-US'', ''de-DE'']\<rparr>) example_net
      (Inr example_item) False Map.empty) = Inr None"
    by code_simp
  have ops: "snd (snd (download_video_subtitles_and_maybe_audio
      (example_args\<lparr>subtitles := Some [''en-US'', ''de-DE'']\<rparr>) example_net
      (Inr example_item) False Map.empty))
    = [MakeDirs ''/dl/2024_Algo_Lab'', ProgressBar 4 0, FOpen ''/dl/2024_Algo_Lab/2024-09-17__08_15__Intro__abc.mp4'' Truncate, FWrite ''/dl/2024_Algo_Lab/2024-09-17__08_15__Intro__abc.mp4'' ''abcd'',
       ProgressBar 2 0, FOpen ''/dl/2024_Algo_Lab/2024-09-17__08_15__Intro__abc.vtt'' Truncate, FWrite ''/dl/2024_Algo_Lab/2024-09-17__08_15__Intro__abc.vtt'' ''hi'']"
    by code_simp
  from absent_subtitle_languages_skipped
         [where args = example_args and langs = "[''en-US'', ''de-DE'']" and nw = example_net
            and m = example_item and get_size = False and files = Map.empty]
       present
  have "download_video_subtitles_and_maybe_audio
       (example_args\<lparr>subtitles := Some [''en-US'', ''de-DE'']\<rparr>) example_net (Inr example_item)
       False Map.empty
     = download_video_subtitles_and_maybe_audio
         (example_args\<lparr>subtitles := Some [''en-US'']\<rparr>) example_net (Inr example_item)
         False Map.empty"
    by simp
  with item present res ops show ?thesis by blast
qed

text \<open>
  Media selection (lines 991 to 1000). An item with video sources gets the video source of
  the configured quality and nothing else, also when that quality is missing; an item
  without video sources gets the audio source of the configured audio quality when there
  is one; and with neither, no URL is selected and the call raises
  \<^verbatim>\<open>AttributeError\<close> before it touches a file.
\<close>

theorem select_media_url_cases:
  "(video_sources m \<noteq> [] \<longrightarrow>
      select_media_url args m = map_of (video_sources m) (video_quality args)) \<and>
   (video_sources m = [] \<and> map_of (audio_sources m) (audio_quality args) = Some link \<longrightarrow>
      select_media_url args m = Some link) \<and>
   (video_sources m = [] \<and> map_of (audio_sources m) (audio_quality args) = None \<longrightarrow>
      select_media_url args m = None \<and>
      download_video_subtitles_and_maybe_audio args nw (Inr m) get_size files
        = (Inl AttributeError, files, []))"
  by (simp add: select_media_url_def download_video_subtitles_and_maybe_audio_def)

theorem select_media_url_cases_witness:
  "video_sources example_item \<noteq> [] \<and>
   select_media_url example_args example_item = Some ''https://cdn/v1.mp4'' \<and>
   select_media_url example_args
     (example_item\<lparr>video_sources := [], audio_sources := [(''ogg'', ''https://cdn/v1.ogg'')]\<rparr>)
     = Some ''https://cdn/v1.ogg'' \<and>
   select_media_url example_args (example_item\<lparr>video_sources := []\<rparr>) = None \<and>
   download_video_subtitles_and_maybe_audio example_args example_net
       (Inr (example_item\<lparr>video_sources := []\<rparr>)) False Map.empty
     = (Inl AttributeError, Map.empty, [])"
proof -
  have v: "video_sources example_item \<noteq> []" by (simp add: example_item_def)
  have a: "video_sources (example_item\<lparr>video_sources := [],
                audio_sources := [(''ogg'', ''https://cdn/v1.ogg'')]\<rparr>) = [] \<and>
           map_of (audio_sources (example_item\<lparr>video_sources := [],
                audio_sources := [(''ogg'', ''https://cdn/v1.ogg'')]\<rparr>)) (audio_quality example_args)
             = Some ''https://cdn/v1.ogg''"
    by (simp add: example_args_def)
  have n: "video_sources (example_item\<lparr>video_sources := []\<rparr>) = [] \<and>
           map_of (audio_sources (example_item\<lparr>video_sources := []\<rparr>)) (audio_quality example_args)
             = None"
    by (simp add: example_item_def)
  have q: "map_of (video_sources example_item) (video_quality example_args)
      = Some ''https://cdn/v1.mp4''"
    by (simp add: example_item_def example_args_def)
  from select_media_url_cases [where m = example_item and args = example_args] v q
  have 1: "select_media_url example_args example_item = Some ''https://cdn/v1.mp4''"
    by simp
  from select_media_url_cases
         [where m = "example_item\<lparr>video_sources := [],
                       audio_sources := [(''ogg'', ''https://cdn/v1.ogg'')]\<rparr>"
            and args = example_args and link = "''https://cdn/v1.ogg''"] a
  have 2: "select_media_url example_args
      (example_item\<lparr>video_sources := [], audio_sources := [(''ogg'', ''https://cdn/v1.ogg'')]\<rparr>)
      = Some ''https://cdn/v1.ogg''"
    by blast
  from select_media_url_cases
         [where m = "example_item\<lparr>video_sources := []\<rparr>" and args = example_args
            and nw = example_net and get_size = False and files = Map.empty] n
  have 3: "select_media_url example_args (example_item\<lparr>video_sources := []\<rparr>) = None \<and>
      download_video_subtitles_and_maybe_audio example_args example_net
          (Inr (example_item\<lparr>video_sources := []\<rparr>)) False Map.empty
        = (Inl AttributeError, Map.empty, [])"
    by blast
  from v 1 2 3 show ?thesis by blast
qed

text \<open>
  C8: an item without video sources and without an audio source of the configured
  quality. In size mode the call raises \<^verbatim>\<open>AttributeError\<close>, the gather of the size
  stage hands the exception to \<^verbatim>\<open>sum(filesizes)\<close>, which raises \<^verbatim>\<open>TypeError\<close>,
  and \<^verbatim>\<open>main\<close> ends before the transfer stage: the sibling item, whose video exists,
  is never written.
\<close>

theorem item_without_sources_aborts_run:
  "process_entry (example_portal (True, False)) lecture_two
       (example_series [lecture_one, lecture_two])
     = Inr \<lparr>mm_id = ''xyz'', mm_datetime = ''2024-09-24__08_15'',
            mm_url = ''https://video.ethz.ch/s/v/xyz'', mm_title = ''Second'',
            mm_series_title = ''Algo Lab'', video_sources = [], subtitle_sources = [],
            audio_sources = []\<rparr> \<and>
   fst (download_video_subtitles_and_maybe_audio example_args example_net
          (process_entry (example_portal (True, False)) lecture_two
             (example_series [lecture_one, lecture_two])) True Map.empty)
     = Inl AttributeError \<and>
   fst (main example_args (example_portal (True, False)) example_net
          [example_series [lecture_one, lecture_two]] Map.empty) = Inl TypeError \<and>
   snd (snd (main example_args (example_portal (True, False)) example_net
          [example_series [lecture_one, lecture_two]] Map.empty))
     = [(OpenPhase, MetadataFetch, ''https://video.ethz.ch/s''), (OpenPhase, SizeProbe, ''https://video.ethz.ch/s'')] \<and>
   fst (snd (main example_args (example_portal (True, False)) example_net
          [example_series [lecture_one, lecture_two]] Map.empty)) ''/dl/2024_Algo_Lab/2024-09-17__08_15__Intro__abc.mp4'' = None"
  by code_simp

section \<open>Properties of the classification and the phases\<close>















end
